theory Spec2Isabelle
  imports Complex_Main
begin

section \<open>Numbers, vectors and quaternions\<close>

text \<open>
  The program is \<^verbatim>\<open>src/main.js\<close>: one render loop (\<^verbatim>\<open>animate\<close>) over module-level
  variables, fed by keyboard, pointer and asset-load callbacks. JavaScript numbers are
  modelled as real numbers: the arithmetic is the exact one, the rounding of IEEE-754
  doubles is outside the model. The properties proved below are those that rounding does
  not touch: which branch runs, which calls are made, which fields are written and from
  which inputs, comparisons, minima and maxima, and sums and products with an exact zero.
  What holds in exact arithmetic only (the length of a rotated displacement, the ratio by
  which the camera's interpolation shrinks its distance to the target) is not stated here.
\<close>

record Vector3 =
  vx :: real
  vy :: real
  vz :: real

record Quaternion =
  qx :: real
  qy :: real
  qz :: real
  qw :: real

record Euler =
  ex :: real
  ey :: real
  ez :: real

definition vec3 :: "real \<Rightarrow> real \<Rightarrow> real \<Rightarrow> Vector3" where
  "vec3 a b c = \<lparr>vx = a, vy = b, vz = c\<rparr>"

text \<open>
  Modelled from the spec: the vector and quaternion operations of the rendering library
  (three.js) that \<^verbatim>\<open>animate\<close> calls are not under src/. The spec names them
  (``normalized (preserving direction, unit length)'', ``rotated'', ``displaced by
  direction * speed * elapsed time'', ``moved a fixed fraction toward that target'',
  ``an orientation built from (pitch, yaw + 180 degrees, 0)''); the formulas below are
  the library's own component-wise ones, with its default Euler order XYZ.
\<close>

definition lengthSq :: "Vector3 \<Rightarrow> real" where
  "lengthSq v = vx v * vx v + vy v * vy v + vz v * vz v"

definition length_v :: "Vector3 \<Rightarrow> real" where
  "length_v v = sqrt (lengthSq v)"

definition multiplyScalar :: "Vector3 \<Rightarrow> real \<Rightarrow> Vector3" where
  "multiplyScalar v s = \<lparr>vx = vx v * s, vy = vy v * s, vz = vz v * s\<rparr>"

definition divideScalar :: "Vector3 \<Rightarrow> real \<Rightarrow> Vector3" where
  "divideScalar v s = multiplyScalar v (1 / s)"

text \<open>\<^verbatim>\<open>normalize_v\<close> divides by \<^verbatim>\<open>this.length() || 1\<close>: a zero vector is divided by 1.\<close>

definition normalize_v :: "Vector3 \<Rightarrow> Vector3" where
  "normalize_v v = divideScalar v (if length_v v = 0 then 1 else length_v v)"

definition add_v :: "Vector3 \<Rightarrow> Vector3 \<Rightarrow> Vector3" where
  "add_v a b = \<lparr>vx = vx a + vx b, vy = vy a + vy b, vz = vz a + vz b\<rparr>"

definition addScaledVector :: "Vector3 \<Rightarrow> Vector3 \<Rightarrow> real \<Rightarrow> Vector3" where
  "addScaledVector p v s = \<lparr>vx = vx p + vx v * s, vy = vy p + vy v * s, vz = vz p + vz v * s\<rparr>"

definition lerpVectors :: "Vector3 \<Rightarrow> Vector3 \<Rightarrow> real \<Rightarrow> Vector3" where
  "lerpVectors v1 v2 alpha =
     \<lparr>vx = vx v1 + (vx v2 - vx v1) * alpha,
      vy = vy v1 + (vy v2 - vy v1) * alpha,
      vz = vz v1 + (vz v2 - vz v1) * alpha\<rparr>"

definition setFromEuler :: "Euler \<Rightarrow> Quaternion" where
  "setFromEuler e =
     (let c1 = cos (ex e / 2); c2 = cos (ey e / 2); c3 = cos (ez e / 2);
          s1 = sin (ex e / 2); s2 = sin (ey e / 2); s3 = sin (ez e / 2)
      in \<lparr>qx = s1 * c2 * c3 + c1 * s2 * s3,
          qy = c1 * s2 * c3 - s1 * c2 * s3,
          qz = c1 * c2 * s3 + s1 * s2 * c3,
          qw = c1 * c2 * c3 - s1 * s2 * s3\<rparr>)"

definition applyQuaternion :: "Vector3 \<Rightarrow> Quaternion \<Rightarrow> Vector3" where
  "applyQuaternion v q =
     (let tx = 2 * (qy q * vz v - qz q * vy v);
          ty = 2 * (qz q * vx v - qx q * vz v);
          tz = 2 * (qx q * vy v - qy q * vx v)
      in \<lparr>vx = vx v + qw q * tx + qy q * tz - qz q * ty,
          vy = vy v + qw q * ty + qz q * tx - qx q * tz,
          vz = vz v + qw q * tz + qx q * ty - qy q * tx\<rparr>)"

section \<open>The module state\<close>

text \<open>
  A scene node (the character): the three fields the program writes. An animation
  action: the clip it plays and whether the mixer has it scheduled (\<^verbatim>\<open>play\<close> schedules
  it, \<^verbatim>\<open>stop\<close> unschedules it, \<^verbatim>\<open>reset\<close> rewinds its local time, which is not
  tracked here, and leaves the schedule alone).
\<close>

record Object3D =
  position :: Vector3
  quaternion :: Quaternion
  scale :: Vector3

record AnimationAction =
  clip :: nat
  scheduled :: bool

record GLTF =
  scene :: Object3D
  animations :: "nat list"

datatype call = Play | Reset | Stop

datatype js_error = TypeError

definition clipAction :: "nat \<Rightarrow> AnimationAction" where
  "clipAction k = \<lparr>clip = k, scheduled = False\<rparr>"

definition play :: "AnimationAction \<Rightarrow> AnimationAction" where
  "play a = a\<lparr>scheduled := True\<rparr>"

definition reset :: "AnimationAction \<Rightarrow> AnimationAction" where
  "reset a = a"

definition stop :: "AnimationAction \<Rightarrow> AnimationAction" where
  "stop a = reset (a\<lparr>scheduled := False\<rparr>)"

text \<open>
  The module-level variables. \<open>keys\<close> is the object literal of line 83, a map from key
  codes to booleans; \<open>mixer\<close> is the animation mixer, reduced to its clock;
  \<open>mouseListening\<close> says whether \<^verbatim>\<open>onMouseMove\<close> is registered; \<open>camera_lookAt\<close> is the
  (eye, target) pair of the last \<^verbatim>\<open>camera.lookAt\<close>; \<open>calls\<close> is the trace of the methods
  called on \<^verbatim>\<open>walkAction\<close>, in order.
\<close>

record world =
  character :: "Object3D option"
  mixer :: "real option"
  walkAction :: "AnimationAction option"
  keys :: "string \<rightharpoonup> bool"
  yaw :: real
  pitch :: real
  mouseListening :: bool
  prevTime :: real
  wasMoving :: bool
  camera_position :: Vector3
  camera_lookAt :: "(Vector3 \<times> Vector3) option"
  calls :: "call list"

definition CHARACTER_SCALE :: real where
  "CHARACTER_SCALE = 15 / 10"

definition CHARACTER_START_POSITION :: Vector3 where
  "CHARACTER_START_POSITION = vec3 0 0 0"

definition MOVEMENT_SPEED :: real where
  "MOVEMENT_SPEED = 5"

definition sensitivity :: real where
  "sensitivity = 2 / 1000"

text \<open>The state after the module body has run; \<open>t0\<close> is the first \<^verbatim>\<open>performance.now()\<close>.\<close>

definition init :: "real \<Rightarrow> world" where
  "init t0 =
     \<lparr>character = None, mixer = None, walkAction = None,
      keys = [''KeyW'' \<mapsto> False, ''KeyA'' \<mapsto> False, ''KeyS'' \<mapsto> False, ''KeyD'' \<mapsto> False],
      yaw = 0, pitch = 0, mouseListening = False, prevTime = t0, wasMoving = False,
      camera_position = vec3 0 3 10, camera_lookAt = None, calls = []\<rparr>"

section \<open>Event handlers\<close>

text \<open>
  The character's load callback (lines 67 to 76). With no animation in the file,
  \<^verbatim>\<open>gltf.animations[0]\<close> is undefined and \<^verbatim>\<open>clipAction\<close> throws on it: the character
  and the mixer are already assigned, \<^verbatim>\<open>walkAction\<close> stays undefined.
\<close>

definition onCharacterLoaded :: "GLTF \<Rightarrow> world \<Rightarrow> world \<times> js_error option" where
  "onCharacterLoaded g w =
     (let c = (scene g)\<lparr>scale := vec3 CHARACTER_SCALE CHARACTER_SCALE CHARACTER_SCALE,
                        position := CHARACTER_START_POSITION\<rparr>;
          w1 = w\<lparr>character := Some c, mixer := Some 0\<rparr>
      in case animations g of
           [] \<Rightarrow> (w1, Some TypeError)
         | k # _ \<Rightarrow>
             (w1\<lparr>walkAction := Some (play (clipAction k)), calls := calls w1 @ [Play]\<rparr>, None))"

definition onKeyDown :: "string \<Rightarrow> world \<Rightarrow> world" where
  "onKeyDown code w = (if code \<in> dom (keys w) then w\<lparr>keys := (keys w)(code \<mapsto> True)\<rparr> else w)"

definition onKeyUp :: "string \<Rightarrow> world \<Rightarrow> world" where
  "onKeyUp code w = (if code \<in> dom (keys w) then w\<lparr>keys := (keys w)(code \<mapsto> False)\<rparr> else w)"

definition onPointerLockChange :: "bool \<Rightarrow> world \<Rightarrow> world" where
  "onPointerLockChange locked w = w\<lparr>mouseListening := locked\<rparr>"

definition onMouseMove :: "real \<Rightarrow> real \<Rightarrow> world \<Rightarrow> world" where
  "onMouseMove movementX movementY w =
     (let y = yaw w - movementX * sensitivity;
          p = pitch w - movementY * sensitivity
      in w\<lparr>yaw := y, pitch := max (- pi / 2) (min (pi / 2) p)\<rparr>)"

section \<open>The frame callback\<close>

definition held :: "(string \<rightharpoonup> bool) \<Rightarrow> string \<Rightarrow> bool" where
  "held ks k = (ks k = Some True)"

text \<open>Lines 136 to 140: the intent vector of the held keys.\<close>

definition moveDir :: "(string \<rightharpoonup> bool) \<Rightarrow> Vector3" where
  "moveDir ks =
     (let m0 = vec3 0 0 0;
          m1 = (if held ks ''KeyW'' then m0\<lparr>vz := vz m0 - 1\<rparr> else m0);
          m2 = (if held ks ''KeyS'' then m1\<lparr>vz := vz m1 + 1\<rparr> else m1);
          m3 = (if held ks ''KeyA'' then m2\<lparr>vx := vx m2 - 1\<rparr> else m2);
          m4 = (if held ks ''KeyD'' then m3\<lparr>vx := vx m3 + 1\<rparr> else m3)
      in m4)"

definition isMoving :: "(string \<rightharpoonup> bool) \<Rightarrow> bool" where
  "isMoving ks = (lengthSq (moveDir ks) > 0)"

text \<open>Lines 132, 133 and 142 to 146: orientation from yaw, then the displacement.\<close>

definition charQuat :: "world \<Rightarrow> Quaternion" where
  "charQuat w = setFromEuler \<lparr>ex = 0, ey = yaw w, ez = 0\<rparr>"

definition movement :: "real \<Rightarrow> world \<Rightarrow> Object3D \<Rightarrow> Object3D" where
  "movement delta w c =
     (let c1 = c\<lparr>quaternion := charQuat w\<rparr>
      in if isMoving (keys w)
         then c1\<lparr>position :=
                   addScaledVector (position c1)
                     (applyQuaternion (normalize_v (moveDir (keys w))) (charQuat w))
                     (MOVEMENT_SPEED * delta)\<rparr>
         else c1)"

text \<open>Lines 149 to 156: the walk animation follows the edges of the moving flag.\<close>

definition animation :: "world \<Rightarrow> world" where
  "animation w =
     (case walkAction w of
        None \<Rightarrow> w
      | Some a \<Rightarrow>
          (if isMoving (keys w) \<and> \<not> wasMoving w
           then w\<lparr>walkAction := Some (play (reset a)), calls := calls w @ [Reset, Play]\<rparr>
           else if \<not> isMoving (keys w) \<and> wasMoving w
           then w\<lparr>walkAction := Some (stop a), calls := calls w @ [Stop]\<rparr>
           else w)
          \<lparr>wasMoving := isMoving (keys w)\<rparr>)"

text \<open>Lines 159 to 167: the camera moves a fifth of the way to its target and looks at the character.\<close>

definition cameraTarget :: "real \<Rightarrow> real \<Rightarrow> Vector3 \<Rightarrow> Vector3" where
  "cameraTarget pt y p =
     add_v p (applyQuaternion (vec3 0 (28 / 10) 4)
                (setFromEuler \<lparr>ex = pt, ey = y + pi, ez = 0\<rparr>))"

definition cameraFollow :: "Vector3 \<Rightarrow> world \<Rightarrow> world" where
  "cameraFollow p w =
     (let pos = lerpVectors (camera_position w) (cameraTarget (pitch w) (yaw w) p) (2 / 10)
      in w\<lparr>camera_position := pos, camera_lookAt := Some (pos, add_v p (vec3 0 (16 / 10) 0))\<rparr>)"

text \<open>
  The block of lines 131 to 167. Every statement of it reads \<^verbatim>\<open>character\<close>: run with the
  character undefined it throws a TypeError at the first one.
\<close>

definition characterLogic :: "real \<Rightarrow> world \<Rightarrow> js_error + world" where
  "characterLogic delta w =
     (case character w of
        None \<Rightarrow> Inl TypeError
      | Some c \<Rightarrow>
          (let c' = movement delta w c
           in Inr (cameraFollow (position c') (animation (w\<lparr>character := Some c'\<rparr>)))))"

text \<open>
  \<^verbatim>\<open>animate\<close>, lines 125 to 173, with \<open>time\<close> the value of \<^verbatim>\<open>performance.now()\<close>
  (milliseconds). Rendering and the request for the next frame change none of the
  variables.
\<close>

definition frameDelta :: "real \<Rightarrow> world \<Rightarrow> real" where
  "frameDelta time w = min ((time - prevTime w) / 1000) (5 / 100)"

definition animate :: "real \<Rightarrow> world \<Rightarrow> js_error + world" where
  "animate time w =
     (let delta = frameDelta time w
      in case (if character w \<noteq> None then characterLogic delta w else Inr w) of
           Inl e \<Rightarrow> Inl e
         | Inr w1 \<Rightarrow>
             Inr (w1\<lparr>mixer := map_option (\<lambda>m. m + delta) (mixer w1), prevTime := time\<rparr>))"

section \<open>Runs\<close>

datatype event =
    KeyDown string
  | KeyUp string
  | PointerLockChange bool
  | MouseMove real real
  | CharacterLoaded GLTF
  | Frame real

text \<open>The state a frame leaves; \<^verbatim>\<open>animate\<close> is shown below to return always.\<close>

definition frame :: "real \<Rightarrow> world \<Rightarrow> world" where
  "frame time w = (case animate time w of Inr w' \<Rightarrow> w' | Inl e \<Rightarrow> w)"

text \<open>
  One event. A mouse move reaches \<^verbatim>\<open>onMouseMove\<close> only while it is registered; an
  exception of the load callback is reported by the platform and the program goes on from
  the state the callback left.
\<close>

fun step :: "event \<Rightarrow> world \<Rightarrow> world" where
  "step (KeyDown code) w = onKeyDown code w"
| "step (KeyUp code) w = onKeyUp code w"
| "step (PointerLockChange locked) w = onPointerLockChange locked w"
| "step (MouseMove dx dy) w = (if mouseListening w then onMouseMove dx dy w else w)"
| "step (CharacterLoaded g) w = fst (onCharacterLoaded g w)"
| "step (Frame time) w = frame time w"

fun run :: "event list \<Rightarrow> world \<Rightarrow> world" where
  "run [] w = w"
| "run (e # es) w = run es (step e w)"

section \<open>Properties of runs\<close>

fun is_load :: "event \<Rightarrow> bool" where
  "is_load (CharacterLoaded g) = True"
| "is_load e = False"

fun is_frame :: "event \<Rightarrow> bool" where
  "is_frame (Frame time) = True"
| "is_frame e = False"

fun no_load :: "event list \<Rightarrow> bool" where
  "no_load [] = True"
| "no_load (e # es) = (\<not> is_load e \<and> no_load es)"

fun has_frame :: "event list \<Rightarrow> bool" where
  "has_frame [] = False"
| "has_frame (e # es) = (is_frame e \<or> has_frame es)"

text \<open>The movement intent is non-zero (\<open>b\<close> true) or zero (\<open>b\<close> false) at every frame of a run.\<close>

fun intent_at_frames :: "bool \<Rightarrow> event list \<Rightarrow> world \<Rightarrow> bool" where
  "intent_at_frames b [] w = True"
| "intent_at_frames b (e # es) w =
     ((if is_frame e then isMoving (keys w) = b else True) \<and> intent_at_frames b es (step e w))"

text \<open>A sample asset and the state right after it has loaded, for the concrete runs below.\<close>

definition gltf_example :: GLTF where
  "gltf_example =
     \<lparr>scene = \<lparr>position = vec3 1 2 3, quaternion = \<lparr>qx = 0, qy = 0, qz = 0, qw = 1\<rparr>,
               scale = vec3 1 1 1\<rparr>,
      animations = [0]\<rparr>"

definition loaded_example :: world where
  "loaded_example = run [CharacterLoaded gltf_example] (init 0)"

definition character_example :: Object3D where
  "character_example =
     \<lparr>position = vec3 0 0 0, quaternion = \<lparr>qx = 0, qy = 0, qz = 0, qw = 1\<rparr>,
      scale = vec3 (15 / 10) (15 / 10) (15 / 10)\<rparr>"

definition walking_example :: world where
  "walking_example = run [KeyDown ''KeyW''] loaded_example"

definition all_keys_example :: world where
  "all_keys_example =
     run [KeyDown ''KeyW'', KeyDown ''KeyS'', KeyDown ''KeyA'', KeyDown ''KeyD''] loaded_example"

section \<open>One frame\<close>

text \<open>
  The frame callback never throws: the guard on \<^verbatim>\<open>character\<close> keeps the block that
  dereferences it from running without it. The lemmas below give the state after a frame
  field by field.
\<close>

lemma animate_None:
  "character w = None \<Longrightarrow>
   animate t w = Inr (w\<lparr>mixer := map_option (\<lambda>m. m + frameDelta t w) (mixer w), prevTime := t\<rparr>)"
  by (simp add: animate_def Let_def)

lemma animate_Some:
  "character w = Some c \<Longrightarrow>
   animate t w =
     Inr ((cameraFollow (position (movement (frameDelta t w) w c))
            (animation (w\<lparr>character := Some (movement (frameDelta t w) w c)\<rparr>)))
          \<lparr>mixer := map_option (\<lambda>m. m + frameDelta t w) (mixer w), prevTime := t\<rparr>)"
  by (simp add: animate_def characterLogic_def cameraFollow_def animation_def Let_def split: option.splits)

lemma frame_None:
  "character w = None \<Longrightarrow>
   frame t w = w\<lparr>mixer := map_option (\<lambda>m. m + frameDelta t w) (mixer w), prevTime := t\<rparr>"
  by (simp add: animate_None frame_def)

lemma frame_Some:
  "character w = Some c \<Longrightarrow>
   frame t w =
     (cameraFollow (position (movement (frameDelta t w) w c))
        (animation (w\<lparr>character := Some (movement (frameDelta t w) w c)\<rparr>)))
     \<lparr>mixer := map_option (\<lambda>m. m + frameDelta t w) (mixer w), prevTime := t\<rparr>"
  by (simp add: animate_Some frame_def)

lemma animation_fields:
  "character (animation w) = character w" "keys (animation w) = keys w"
  "yaw (animation w) = yaw w" "pitch (animation w) = pitch w"
  "camera_position (animation w) = camera_position w"
  "mouseListening (animation w) = mouseListening w"
  "(walkAction (animation w) = None) = (walkAction w = None)"
  by (simp_all add: animation_def split: option.splits)

lemma animation_calls:
  "calls (animation w) =
     calls w @ (if walkAction w = None \<or> isMoving (keys w) = wasMoving w then []
                else if isMoving (keys w) then [Reset, Play] else [Stop])"
  by (auto simp add: animation_def split: option.splits)

lemma animation_wasMoving:
  "wasMoving (animation w) = (if walkAction w = None then wasMoving w else isMoving (keys w))"
  by (simp add: animation_def split: option.splits)

lemma cameraFollow_fields:
  "character (cameraFollow p w) = character w" "keys (cameraFollow p w) = keys w"
  "yaw (cameraFollow p w) = yaw w" "pitch (cameraFollow p w) = pitch w"
  "walkAction (cameraFollow p w) = walkAction w" "calls (cameraFollow p w) = calls w"
  "wasMoving (cameraFollow p w) = wasMoving w" "mouseListening (cameraFollow p w) = mouseListening w"
  "camera_position (cameraFollow p w) = lerpVectors (camera_position w) (cameraTarget (pitch w) (yaw w) p) (2 / 10)"
  by (simp_all add: cameraFollow_def Let_def)

lemma frame_keys: "keys (frame t w) = keys w"
  and frame_yaw: "yaw (frame t w) = yaw w"
  and frame_pitch: "pitch (frame t w) = pitch w"
  and frame_loaded: "(character (frame t w) = None) = (character w = None)"
  and frame_action: "(walkAction (frame t w) = None) = (walkAction w = None)"
  by (cases "character w"; simp add: frame_None frame_Some cameraFollow_fields animation_fields)+

lemma frame_calls:
  "calls (frame t w) =
     calls w @ (if character w = None \<or> walkAction w = None \<or> isMoving (keys w) = wasMoving w then []
                else if isMoving (keys w) then [Reset, Play] else [Stop])"
  by (cases "character w"; simp add: frame_None frame_Some cameraFollow_fields animation_calls)

lemma frame_wasMoving:
  "wasMoving (frame t w) =
     (if character w = None \<or> walkAction w = None then wasMoving w else isMoving (keys w))"
  by (cases "character w"; simp add: frame_None frame_Some cameraFollow_fields animation_wasMoving)

lemma step_other:
  "\<not> is_frame e \<Longrightarrow> \<not> is_load e \<Longrightarrow>
   character (step e w) = character w \<and> walkAction (step e w) = walkAction w \<and>
   calls (step e w) = calls w \<and> wasMoving (step e w) = wasMoving w \<and>
   camera_position (step e w) = camera_position w \<and> camera_lookAt (step e w) = camera_lookAt w \<and>
   mixer (step e w) = mixer w"
  by (cases e) (simp_all add: onKeyDown_def onKeyUp_def onPointerLockChange_def onMouseMove_def Let_def)

lemma animation_walkAction:
  "walkAction (animation w) =
     map_option (\<lambda>a. if isMoving (keys w) \<and> \<not> wasMoving w then play (reset a)
                        else if \<not> isMoving (keys w) \<and> wasMoving w then stop a else a)
       (walkAction w)"
  by (auto simp add: animation_def split: option.splits)

lemma frame_walkAction:
  "walkAction (frame t w) =
     (if character w = None then walkAction w
      else map_option (\<lambda>a. if isMoving (keys w) \<and> \<not> wasMoving w then play (reset a)
                        else if \<not> isMoving (keys w) \<and> wasMoving w then stop a else a)
             (walkAction w))"
  by (cases "character w")
    (simp_all add: frame_None frame_Some cameraFollow_fields animation_walkAction cong: if_cong)

lemma animate_frame: "animate t w = Inr (frame t w)"
  by (cases "character w"; simp add: frame_def animate_None animate_Some)

lemma character_frame:
  "character w = Some c \<Longrightarrow> character (frame t w) = Some (movement (frameDelta t w) w c)"
  by (simp add: frame_Some cameraFollow_fields animation_fields)

section \<open>The sample states\<close>

lemma loaded_example_fields:
  "character loaded_example = Some character_example"
  "walkAction loaded_example = Some \<lparr>clip = 0, scheduled = True\<rparr>"
  "wasMoving loaded_example = False"
  "calls loaded_example = [Play]"
  "keys loaded_example = [''KeyW'' \<mapsto> False, ''KeyA'' \<mapsto> False, ''KeyS'' \<mapsto> False, ''KeyD'' \<mapsto> False]"
  "yaw loaded_example = 0" "pitch loaded_example = 0" "prevTime loaded_example = 0"
  "camera_position loaded_example = vec3 0 3 10"
  by (simp_all add: loaded_example_def gltf_example_def init_def onCharacterLoaded_def Let_def
      CHARACTER_SCALE_def CHARACTER_START_POSITION_def play_def clipAction_def
      character_example_def)

lemma isMoving_W: "isMoving [''KeyW'' \<mapsto> True, ''KeyA'' \<mapsto> False, ''KeyS'' \<mapsto> False, ''KeyD'' \<mapsto> False]"
  by (simp add: isMoving_def moveDir_def held_def vec3_def lengthSq_def Let_def)

lemma walking_example_fields:
  "character walking_example = Some character_example"
  "keys walking_example = [''KeyW'' \<mapsto> True, ''KeyA'' \<mapsto> False, ''KeyS'' \<mapsto> False, ''KeyD'' \<mapsto> False]"
  "prevTime walking_example = 0"
  by (simp_all add: walking_example_def onKeyDown_def loaded_example_fields character_example_def fun_upd_twist)

lemma all_keys_example_held:
  "held (keys all_keys_example) ''KeyW''" "held (keys all_keys_example) ''KeyS''"
  "held (keys all_keys_example) ''KeyA''" "held (keys all_keys_example) ''KeyD''"
  by (simp_all add: all_keys_example_def onKeyDown_def loaded_example_fields held_def)

lemma not_isMoving_released:
  "\<not> isMoving [''KeyW'' \<mapsto> False, ''KeyA'' \<mapsto> False, ''KeyS'' \<mapsto> False, ''KeyD'' \<mapsto> False]"
  by (simp add: isMoving_def moveDir_def held_def vec3_def lengthSq_def Let_def)

section \<open>C1: the walk animation and the moving flag\<close>

lemma idle_after_walking:
  "wasMoving (run [CharacterLoaded gltf_example, KeyDown ''KeyW'', Frame 16, KeyUp ''KeyW'', Frame 32] (init 0)) = False \<and>
   map_option scheduled (walkAction (run [CharacterLoaded gltf_example, KeyDown ''KeyW'', Frame 16, KeyUp ''KeyW'', Frame 32] (init 0)))
     = Some False"
proof -
  let ?w1 = "frame 16 walking_example"
  let ?w2 = "onKeyUp ''KeyW'' ?w1"
  have r: "run [CharacterLoaded gltf_example, KeyDown ''KeyW'', Frame 16, KeyUp ''KeyW'', Frame 32] (init 0)
      = frame 32 ?w2"
    by (simp add: walking_example_def loaded_example_def)
  have wf: "walkAction walking_example = Some \<lparr>clip = 0, scheduled = True\<rparr>" "\<not> wasMoving walking_example"
    by (simp_all add: walking_example_def onKeyDown_def loaded_example_fields)
  have m1: "wasMoving ?w1" "character ?w1 \<noteq> None"
    "walkAction ?w1 = Some \<lparr>clip = 0, scheduled = True\<rparr>"
    by (simp_all add: frame_wasMoving frame_loaded frame_walkAction walking_example_fields wf isMoving_W
        play_def reset_def)
  have k2: "keys ?w2 = [''KeyW'' \<mapsto> False, ''KeyA'' \<mapsto> False, ''KeyS'' \<mapsto> False, ''KeyD'' \<mapsto> False]"
    by (simp add: onKeyUp_def frame_keys walking_example_fields fun_upd_twist)
  have m2: "wasMoving ?w2" "character ?w2 \<noteq> None" "walkAction ?w2 = Some \<lparr>clip = 0, scheduled = True\<rparr>"
    using m1 by (simp_all add: onKeyUp_def)
  have "wasMoving (frame 32 ?w2) = False"
    using m2 by (simp add: frame_wasMoving k2 not_isMoving_released)
  moreover have "walkAction (frame 32 ?w2) = Some \<lparr>clip = 0, scheduled = False\<rparr>"
    using m2 by (simp add: frame_walkAction k2 not_isMoving_released stop_def reset_def)
  ultimately show ?thesis unfolding r by simp
qed

text \<open>
  C1. The claim: once the character and its walk action have loaded, the walk animation
  plays exactly when an idle-to-moving edge has not yet been followed by a moving-to-idle
  edge, and it starts only on an idle-to-moving edge. The load callback itself calls
  \<^verbatim>\<open>walkAction.play()\<close> (line 75) while the previous-moving flag is still false: after
  the load and two frames with no key held, the intent was zero at every frame, the flag
  is false, the only call on the walk action is the load's \<^verbatim>\<open>play\<close>, and the action is
  scheduled, that is, the animation plays while the character has never moved. The same
  rest (flag false, no key held) reached by walking one frame and releasing the key has the
  action unscheduled.
\<close>

theorem C1_walk_plays_while_idle_after_load:
  "intent_at_frames False [CharacterLoaded gltf_example, Frame 16, Frame 32] (init 0) \<and>
   wasMoving (run [CharacterLoaded gltf_example, Frame 16, Frame 32] (init 0)) = False \<and>
   calls (run [CharacterLoaded gltf_example, Frame 16, Frame 32] (init 0)) = [Play] \<and>
   map_option scheduled (walkAction (run [CharacterLoaded gltf_example, Frame 16, Frame 32] (init 0)))
     = Some True \<and>
   wasMoving (run [CharacterLoaded gltf_example, KeyDown ''KeyW'', Frame 16, KeyUp ''KeyW'', Frame 32] (init 0))
     = False \<and>
   map_option scheduled
     (walkAction (run [CharacterLoaded gltf_example, KeyDown ''KeyW'', Frame 16, KeyUp ''KeyW'', Frame 32] (init 0)))
     = Some False"
proof -
  have r: "run [CharacterLoaded gltf_example, Frame 16, Frame 32] (init 0) = frame 32 (frame 16 loaded_example)"
    by (simp add: loaded_example_def)
  have s: "step (CharacterLoaded gltf_example) (init 0) = loaded_example"
    by (simp add: loaded_example_def)
  have i: "intent_at_frames False [CharacterLoaded gltf_example, Frame 16, Frame 32] (init 0)"
    unfolding intent_at_frames.simps s
    by (simp add: frame_keys loaded_example_fields not_isMoving_released)
  have w1: "wasMoving (frame 16 loaded_example) = False"
    by (simp add: frame_wasMoving loaded_example_fields not_isMoving_released)
  have w2: "wasMoving (frame 32 (frame 16 loaded_example)) = False"
    by (simp add: frame_wasMoving frame_keys w1 loaded_example_fields not_isMoving_released)
  have c1: "calls (frame 16 loaded_example) = [Play]"
    by (simp add: frame_calls loaded_example_fields not_isMoving_released)
  have c2: "calls (frame 32 (frame 16 loaded_example)) = [Play]"
    by (simp add: frame_calls frame_keys w1 c1 loaded_example_fields not_isMoving_released)
  have a1: "walkAction (frame 16 loaded_example) = Some \<lparr>clip = 0, scheduled = True\<rparr>"
    by (simp add: frame_walkAction loaded_example_fields not_isMoving_released)
  have a2: "walkAction (frame 32 (frame 16 loaded_example)) = Some \<lparr>clip = 0, scheduled = True\<rparr>"
    by (simp add: frame_walkAction frame_keys frame_loaded w1 a1 loaded_example_fields not_isMoving_released)
  show ?thesis using i w2 c2 a2 idle_after_walking unfolding r by simp
qed

section \<open>C2: one start and one stop per run\<close>

lemma run_edges:
  "character w \<noteq> None \<Longrightarrow> walkAction w \<noteq> None \<Longrightarrow> no_load es \<Longrightarrow> intent_at_frames b es w \<Longrightarrow>
   character (run es w) \<noteq> None \<and> walkAction (run es w) \<noteq> None \<and>
   wasMoving (run es w) = (if has_frame es then b else wasMoving w) \<and>
   calls (run es w) =
     calls w @ (if has_frame es \<and> wasMoving w \<noteq> b then (if b then [Reset, Play] else [Stop]) else [])"
proof (induction es arbitrary: w)
  case Nil
  then show ?case by simp
next
  case (Cons e es)
  show ?case
  proof (cases "is_frame e")
    case True
    then obtain t where e: "e = Frame t" by (cases e) simp_all
    let ?w = "frame t w"
    have l: "character ?w \<noteq> None" "walkAction ?w \<noteq> None"
      using Cons.prems by (simp_all add: frame_loaded frame_action)
    have m: "isMoving (keys w) = b" using Cons.prems e by simp
    have wm: "wasMoving ?w = b" using Cons.prems m by (auto simp add: frame_wasMoving)
    have c: "calls ?w = calls w @ (if wasMoving w \<noteq> b then (if b then [Reset, Play] else [Stop]) else [])"
      using Cons.prems m by (auto simp add: frame_calls)
    have ih: "character (run es ?w) \<noteq> None \<and> walkAction (run es ?w) \<noteq> None \<and>
        wasMoving (run es ?w) = (if has_frame es then b else wasMoving ?w) \<and>
        calls (run es ?w) = calls ?w @ (if has_frame es \<and> wasMoving ?w \<noteq> b then (if b then [Reset, Play] else [Stop]) else [])"
      using Cons.IH [OF l] Cons.prems e by simp
    show ?thesis using ih wm c e by simp
  next
    case False
    then have o: "character (step e w) = character w \<and> walkAction (step e w) = walkAction w \<and>
        calls (step e w) = calls w \<and> wasMoving (step e w) = wasMoving w"
      using Cons.prems step_other [of e w] by simp
    have "character (step e w) \<noteq> None" "walkAction (step e w) \<noteq> None" using o Cons.prems by simp_all
    from Cons.IH [OF this] Cons.prems False o show ?thesis by simp
  qed
qed

lemma no_load_take: "no_load es \<Longrightarrow> no_load (take k es)"
  by (induction es arbitrary: k) (auto simp add: take_Cons split: nat.splits)

lemma intent_at_frames_take: "intent_at_frames b es w \<Longrightarrow> intent_at_frames b (take k es) w"
  by (induction es arbitrary: k w) (auto simp add: take_Cons split: nat.splits)

text \<open>
  C2, as amended. Once the character and its walk action have loaded and the previous-moving
  flag is false (the state after the load or after an idle frame): a run of events with at
  least one frame, all of whose frames see a non-zero intent, appends exactly one start
  (\<^verbatim>\<open>reset().play()\<close>) to the calls on the walk action, and every prefix of the run that
  holds a frame already has it, so it is issued on the first frame; a following run whose
  frames all see a zero intent appends exactly one stop, on its first frame, however long it
  is. In any state, a frame whose intent agrees with the previous-moving flag calls nothing.
\<close>

theorem C2_one_start_one_stop:
  assumes "character w \<noteq> None" and "walkAction w \<noteq> None" and "\<not> wasMoving w"
    and "no_load es" and "intent_at_frames True es w" and "has_frame es"
    and "no_load es'" and "intent_at_frames False es' (run es w)" and "has_frame es'"
  shows "calls (run es w) = calls w @ [Reset, Play] \<and>
         (\<forall>k. has_frame (take k es) \<longrightarrow> calls (run (take k es) w) = calls w @ [Reset, Play]) \<and>
         calls (run es' (run es w)) = calls w @ [Reset, Play, Stop] \<and>
         (\<forall>k. has_frame (take k es') \<longrightarrow>
              calls (run (take k es') (run es w)) = calls w @ [Reset, Play, Stop]) \<and>
         (\<forall>t v. isMoving (keys v) = wasMoving v \<longrightarrow> calls (frame t v) = calls v)"
proof -
  have r: "character (run es w) \<noteq> None" "walkAction (run es w) \<noteq> None" "wasMoving (run es w)"
    and c: "calls (run es w) = calls w @ [Reset, Play]"
    using run_edges [OF assms(1,2,4,5)] assms(3,6) by simp_all
  have p: "calls (run (take k es) w) = calls w @ [Reset, Play]" if "has_frame (take k es)" for k
    using run_edges [OF assms(1,2) no_load_take [OF assms(4)] intent_at_frames_take [OF assms(5)], of k]
      assms(3) that by simp
  have c': "calls (run es' (run es w)) = calls w @ [Reset, Play, Stop]"
    using run_edges [OF r(1,2) assms(7,8)] r(3) c assms(9) by simp
  have p': "calls (run (take k es') (run es w)) = calls w @ [Reset, Play, Stop]" if "has_frame (take k es')" for k
    using run_edges [OF r(1,2) no_load_take [OF assms(7)] intent_at_frames_take [OF assms(8)], of k]
      r(3) c that by simp
  show ?thesis using c p c' p' by (simp add: frame_calls)
qed

theorem C2_witness:
  "character loaded_example \<noteq> None \<and> walkAction loaded_example \<noteq> None \<and> \<not> wasMoving loaded_example \<and>
   no_load [KeyDown ''KeyW'', Frame 16, Frame 32] \<and>
   intent_at_frames True [KeyDown ''KeyW'', Frame 16, Frame 32] loaded_example \<and>
   has_frame [KeyDown ''KeyW'', Frame 16, Frame 32] \<and>
   no_load [KeyUp ''KeyW'', Frame 48, Frame 64] \<and>
   intent_at_frames False [KeyUp ''KeyW'', Frame 48, Frame 64]
     (run [KeyDown ''KeyW'', Frame 16, Frame 32] loaded_example) \<and>
   has_frame [KeyUp ''KeyW'', Frame 48, Frame 64] \<and>
   calls (run [KeyDown ''KeyW'', Frame 16, Frame 32] loaded_example) = [Play, Reset, Play] \<and>
   calls (run [KeyUp ''KeyW'', Frame 48, Frame 64]
            (run [KeyDown ''KeyW'', Frame 16, Frame 32] loaded_example)) = [Play, Reset, Play, Stop]"
proof -
  have k1: "keys (onKeyDown ''KeyW'' loaded_example) =
      [''KeyW'' \<mapsto> True, ''KeyA'' \<mapsto> False, ''KeyS'' \<mapsto> False, ''KeyD'' \<mapsto> False]"
    by (simp add: onKeyDown_def loaded_example_fields fun_upd_twist)
  have h1: "character loaded_example \<noteq> None" "walkAction loaded_example \<noteq> None" "\<not> wasMoving loaded_example"
    by (simp_all add: loaded_example_fields)
  have h2: "no_load [KeyDown ''KeyW'', Frame 16, Frame 32]" "has_frame [KeyDown ''KeyW'', Frame 16, Frame 32]"
    "no_load [KeyUp ''KeyW'', Frame 48, Frame 64]" "has_frame [KeyUp ''KeyW'', Frame 48, Frame 64]"
    by simp_all
  have h3: "intent_at_frames True [KeyDown ''KeyW'', Frame 16, Frame 32] loaded_example"
    by (simp add: frame_keys k1 isMoving_W)
  have k2: "keys (onKeyUp ''KeyW'' (frame 32 (frame 16 (onKeyDown ''KeyW'' loaded_example)))) =
      [''KeyW'' \<mapsto> False, ''KeyA'' \<mapsto> False, ''KeyS'' \<mapsto> False, ''KeyD'' \<mapsto> False]"
    by (simp add: onKeyUp_def frame_keys k1 fun_upd_twist)
  have h4: "intent_at_frames False [KeyUp ''KeyW'', Frame 48, Frame 64]
     (run [KeyDown ''KeyW'', Frame 16, Frame 32] loaded_example)"
    by (simp add: frame_keys k2 isMoving_def moveDir_def held_def vec3_def lengthSq_def Let_def)
  show ?thesis
    using C2_one_start_one_stop [OF h1 h2(1) h3 h2(2) h2(3) h4 h2(4)] h1 h2 h3 h4
    by (simp add: loaded_example_fields)
qed

text \<open>
  C2 as stated, without the load: from the initial state, with the forward key held, two
  frames see a non-zero intent and no call reaches the walk action, since
  \<^verbatim>\<open>animate\<close> skips the whole block while the character is undefined.
\<close>

theorem C2_counterexample:
  "intent_at_frames True [KeyDown ''KeyW'', Frame 16, Frame 32] (init 0) \<and>
   has_frame [KeyDown ''KeyW'', Frame 16, Frame 32] \<and>
   \<not> wasMoving (init 0) \<and>
   calls (run [KeyDown ''KeyW'', Frame 16, Frame 32] (init 0)) = []"
proof -
  have k: "keys (onKeyDown ''KeyW'' (init 0)) =
      [''KeyW'' \<mapsto> True, ''KeyA'' \<mapsto> False, ''KeyS'' \<mapsto> False, ''KeyD'' \<mapsto> False]"
    by (simp add: onKeyDown_def init_def fun_upd_twist)
  have c: "character (onKeyDown ''KeyW'' (init 0)) = None" "calls (onKeyDown ''KeyW'' (init 0)) = []"
    by (simp_all add: onKeyDown_def init_def)
  have "intent_at_frames True [KeyDown ''KeyW'', Frame 16, Frame 32] (init 0)"
    by (simp add: frame_keys k isMoving_W)
  moreover have "calls (run [KeyDown ''KeyW'', Frame 16, Frame 32] (init 0)) = []"
    by (simp add: frame_calls frame_loaded c)
  moreover have "\<not> wasMoving (init 0)" by (simp add: init_def)
  ultimately show ?thesis by simp
qed

section \<open>C3: opposing keys cancel\<close>

lemma moveDir_vy: "vy (moveDir ks) = 0"
  by (simp add: moveDir_def vec3_def Let_def)

lemma position_frame_idle:
  "\<not> isMoving (keys w) \<Longrightarrow> map_option position (character (frame t w)) = map_option position (character w)"
  by (cases "character w"; simp add: frame_None frame_Some cameraFollow_fields animation_fields movement_def Let_def)

text \<open>
  C3. With forward and back both held the intent has no component along z, with left and
  right both held none along x; with all four held the intent is the zero vector, the frame
  counts as not moving, and it returns with the character where it was.
\<close>

theorem C3_opposing_keys_cancel:
  "(held (keys w) ''KeyW'' \<and> held (keys w) ''KeyS'' \<longrightarrow> vz (moveDir (keys w)) = 0) \<and>
   (held (keys w) ''KeyA'' \<and> held (keys w) ''KeyD'' \<longrightarrow> vx (moveDir (keys w)) = 0) \<and>
   (held (keys w) ''KeyW'' \<and> held (keys w) ''KeyS'' \<and> held (keys w) ''KeyA'' \<and> held (keys w) ''KeyD'' \<longrightarrow>
      moveDir (keys w) = vec3 0 0 0 \<and> \<not> isMoving (keys w) \<and>
      (\<exists>w'. animate t w = Inr w' \<and>
            map_option position (character w') = map_option position (character w)))"
proof -
  have a: "vz (moveDir (keys w)) = 0" if "held (keys w) ''KeyW''" "held (keys w) ''KeyS''"
    using that by (simp add: moveDir_def vec3_def Let_def)
  have b: "vx (moveDir (keys w)) = 0" if "held (keys w) ''KeyA''" "held (keys w) ''KeyD''"
    using that by (simp add: moveDir_def vec3_def Let_def)
  have c: "moveDir (keys w) = vec3 0 0 0 \<and> \<not> isMoving (keys w) \<and>
      (\<exists>w'. animate t w = Inr w' \<and>
            map_option position (character w') = map_option position (character w))"
    if h: "held (keys w) ''KeyW''" "held (keys w) ''KeyS''" "held (keys w) ''KeyA''" "held (keys w) ''KeyD''"
  proof -
    have m: "moveDir (keys w) = vec3 0 0 0" using h by (simp add: moveDir_def vec3_def Let_def)
    then have n: "\<not> isMoving (keys w)" by (simp add: isMoving_def lengthSq_def vec3_def)
    show ?thesis using m n position_frame_idle [OF n] by (simp add: animate_frame)
  qed
  show ?thesis using a b c by blast
qed

theorem C3_witness:
  "held (keys all_keys_example) ''KeyW'' \<and> held (keys all_keys_example) ''KeyS'' \<and>
   held (keys all_keys_example) ''KeyA'' \<and> held (keys all_keys_example) ''KeyD'' \<and>
   vz (moveDir (keys all_keys_example)) = 0 \<and> vx (moveDir (keys all_keys_example)) = 0 \<and>
   moveDir (keys all_keys_example) = vec3 0 0 0 \<and> \<not> isMoving (keys all_keys_example) \<and>
   (\<exists>w'. animate 16 all_keys_example = Inr w' \<and>
      map_option position (character w') = map_option position (character all_keys_example))"
  using C3_opposing_keys_cancel [of all_keys_example 16] all_keys_example_held by blast

section \<open>C5: the pitch stays clamped\<close>

lemma onMouseMove_pitch_range:
  "- pi / 2 \<le> pitch (onMouseMove dx dy w) \<and> pitch (onMouseMove dx dy w) \<le> pi / 2"
  using pi_ge_zero by (simp add: onMouseMove_def Let_def max_def min_def)

lemma step_pitch_range:
  "- pi / 2 \<le> pitch w \<and> pitch w \<le> pi / 2 \<Longrightarrow>
   - pi / 2 \<le> pitch (step e w) \<and> pitch (step e w) \<le> pi / 2"
proof (cases e)
  case (MouseMove dx dy)
  assume "- pi / 2 \<le> pitch w \<and> pitch w \<le> pi / 2"
  then show ?thesis using MouseMove onMouseMove_pitch_range [of dx dy w] by simp
qed (simp_all add: onKeyDown_def onKeyUp_def onPointerLockChange_def onCharacterLoaded_def
      frame_pitch Let_def split: list.splits)

lemma run_pitch_range:
  "- pi / 2 \<le> pitch w \<and> pitch w \<le> pi / 2 \<Longrightarrow>
   - pi / 2 \<le> pitch (run es w) \<and> pitch (run es w) \<le> pi / 2"
proof (induction es arbitrary: w)
  case Nil
  then show ?case by simp
next
  case (Cons e es)
  from Cons.IH [OF step_pitch_range [OF Cons.prems]] show ?case by simp
qed

text \<open>
  C5. After any sequence of events from the initial state (mouse moves among them, with
  any deltas) the pitch lies in \<open>[- pi / 2, pi / 2]\<close>; one motion sample takes
  \<open>dx * sensitivity\<close> from the yaw and \<open>dy * sensitivity\<close> from the pitch, and clamps the
  pitch after that.
\<close>

theorem C5_pitch_clamped:
  "- pi / 2 \<le> pitch (run es (init t0)) \<and> pitch (run es (init t0)) \<le> pi / 2 \<and>
   yaw (onMouseMove dx dy w) = yaw w - dx * sensitivity \<and>
   pitch (onMouseMove dx dy w) = max (- pi / 2) (min (pi / 2) (pitch w - dy * sensitivity))"
proof -
  have "- pi / 2 \<le> pitch (init t0) \<and> pitch (init t0) \<le> pi / 2"
    using pi_ge_zero by (simp add: init_def)
  from run_pitch_range [OF this] show ?thesis by (simp add: onMouseMove_def Let_def)
qed

theorem C5_witness:
  "- pi / 2 \<le> pitch (run [PointerLockChange True, MouseMove 0 (- 2000)] (init 0)) \<and>
   pitch (run [PointerLockChange True, MouseMove 0 (- 2000)] (init 0)) \<le> pi / 2 \<and>
   yaw (onMouseMove 3 4 (init 0)) = yaw (init 0) - 3 * sensitivity \<and>
   pitch (onMouseMove 3 4 (init 0)) = max (- pi / 2) (min (pi / 2) (pitch (init 0) - 4 * sensitivity))"
  by (rule C5_pitch_clamped)

section \<open>C6: the clamp of the elapsed time\<close>

lemma frame_same_delta:
  "frameDelta t w = frameDelta t' w \<Longrightarrow> frame t w = (frame t' w)\<lparr>prevTime := t\<rparr>"
  by (cases "character w"; simp add: frame_None frame_Some)

text \<open>
  C6. The elapsed time a frame uses is the minimum of the raw gap (in seconds) and 0.05.
  From any state, a frame 2000 ms after the previous one and a frame 50 ms after it
  return states that differ in the stored time only: the character is displaced the same.
  The displacement of a loaded character is the one \<open>movement\<close> computes from that minimum.
\<close>

theorem C6_elapsed_time_clamp:
  "frameDelta t w = min ((t - prevTime w) / 1000) (5 / 100) \<and>
   frameDelta (prevTime w + 2000) w = frameDelta (prevTime w + 50) w \<and>
   (\<exists>w1 w2. animate (prevTime w + 2000) w = Inr w1 \<and> animate (prevTime w + 50) w = Inr w2 \<and>
      character w1 = character w2 \<and> w1 = w2\<lparr>prevTime := prevTime w + 2000\<rparr>) \<and>
   (\<forall>c. character w = Some c \<longrightarrow>
      (\<exists>w'. animate t w = Inr w' \<and>
         character w' = Some (movement (min ((t - prevTime w) / 1000) (5 / 100)) w c)))"
proof -
  have e: "frameDelta (prevTime w + 2000) w = frameDelta (prevTime w + 50) w"
    by (simp add: frameDelta_def)
  have "frame (prevTime w + 2000) w = (frame (prevTime w + 50) w)\<lparr>prevTime := prevTime w + 2000\<rparr>"
    using e by (rule frame_same_delta)
  then have "character (frame (prevTime w + 2000) w) = character (frame (prevTime w + 50) w) \<and>
      frame (prevTime w + 2000) w = (frame (prevTime w + 50) w)\<lparr>prevTime := prevTime w + 2000\<rparr>"
    by simp
  moreover have "character (frame t w) = Some (movement (min ((t - prevTime w) / 1000) (5 / 100)) w c)"
    if "character w = Some c" for c
    using character_frame [OF that, of t] by (simp add: frameDelta_def)
  ultimately show ?thesis using e by (simp add: animate_frame frameDelta_def)
qed

theorem C6_witness:
  "character walking_example = Some character_example \<and>
   frameDelta 2000 walking_example = 5 / 100 \<and>
   frameDelta (prevTime walking_example + 2000) walking_example =
     frameDelta (prevTime walking_example + 50) walking_example \<and>
   (\<exists>w1 w2. animate (prevTime walking_example + 2000) walking_example = Inr w1 \<and>
      animate (prevTime walking_example + 50) walking_example = Inr w2 \<and>
      character w1 = character w2 \<and> w1 = w2\<lparr>prevTime := prevTime walking_example + 2000\<rparr>) \<and>
   (\<exists>w'. animate 2000 walking_example = Inr w' \<and>
      character w' = Some (movement (5 / 100) walking_example character_example))"
proof -
  have h: "character walking_example = Some character_example"
    by (simp add: walking_example_fields)
  have m: "min ((2000 - prevTime walking_example) / 1000) (5 / 100) = (5 / 100 :: real)"
    by (simp add: walking_example_fields)
  show ?thesis
    using C6_elapsed_time_clamp [of 2000 walking_example, unfolded m] h by blast
qed

section \<open>C8: nothing happens before the load\<close>

lemma unloaded_step:
  assumes "\<not> is_load e" and "character w = None" and "mixer w = None"
  shows "character (step e w) = None \<and> mixer (step e w) = None \<and>
         walkAction (step e w) = walkAction w \<and> wasMoving (step e w) = wasMoving w \<and>
         calls (step e w) = calls w \<and> camera_position (step e w) = camera_position w \<and>
         camera_lookAt (step e w) = camera_lookAt w"
proof (cases "is_frame e")
  case True
  then obtain t where "e = Frame t" by (cases e) simp_all
  then show ?thesis using assms by (simp add: frame_None)
next
  case False
  then show ?thesis using assms step_other [of e w] by simp
qed

lemma unloaded_run:
  "no_load es \<Longrightarrow> character w = None \<Longrightarrow> mixer w = None \<Longrightarrow>
   character (run es w) = None \<and> mixer (run es w) = None \<and>
   walkAction (run es w) = walkAction w \<and> wasMoving (run es w) = wasMoving w \<and>
   calls (run es w) = calls w \<and> camera_position (run es w) = camera_position w \<and>
   camera_lookAt (run es w) = camera_lookAt w"
proof (induction es arbitrary: w)
  case Nil
  then show ?case by simp
next
  case (Cons e es)
  have n: "\<not> is_load e" "no_load es" using Cons.prems(1) by simp_all
  note s = unloaded_step [OF n(1) Cons.prems(2,3)]
  from Cons.IH [OF n(2)] s show ?case by simp
qed

text \<open>
  C8. After any events other than the character's load, from the initial state: the
  character and the walk action are still undefined, the camera is at (0, 3, 10) and has not
  been turned, no call has reached the walk action, and a frame returns (no exception) the
  same state with only the stored time updated. In any state with no character, whatever
  keys are held and whatever the look angles, a frame returns and leaves character, walk
  action, moving flag, calls and camera as they were.
\<close>

theorem C8_no_op_before_load:
  assumes "no_load es"
  shows "character (run es (init t0)) = None \<and> walkAction (run es (init t0)) = None \<and>
         camera_position (run es (init t0)) = vec3 0 3 10 \<and>
         camera_lookAt (run es (init t0)) = None \<and>
         calls (run es (init t0)) = [] \<and> \<not> wasMoving (run es (init t0)) \<and>
         (\<forall>t. animate t (run es (init t0)) = Inr ((run es (init t0))\<lparr>prevTime := t\<rparr>)) \<and>
         (\<forall>v t. character v = None \<longrightarrow>
            (\<exists>v'. animate t v = Inr v' \<and> character v' = None \<and> walkAction v' = walkAction v \<and>
               wasMoving v' = wasMoving v \<and> calls v' = calls v \<and>
               camera_position v' = camera_position v \<and> camera_lookAt v' = camera_lookAt v))"
proof -
  have r: "character (run es (init t0)) = None \<and> mixer (run es (init t0)) = None \<and>
      walkAction (run es (init t0)) = walkAction (init t0) \<and>
      wasMoving (run es (init t0)) = wasMoving (init t0) \<and>
      calls (run es (init t0)) = calls (init t0) \<and>
      camera_position (run es (init t0)) = camera_position (init t0) \<and>
      camera_lookAt (run es (init t0)) = camera_lookAt (init t0)"
    using assms by (rule unloaded_run) (simp_all add: init_def)
  have a: "animate t (run es (init t0)) = Inr ((run es (init t0))\<lparr>prevTime := t\<rparr>)" for t
    using r by (simp add: animate_None)
  have g: "\<exists>v'. animate t v = Inr v' \<and> character v' = None \<and> walkAction v' = walkAction v \<and>
               wasMoving v' = wasMoving v \<and> calls v' = calls v \<and>
               camera_position v' = camera_position v \<and> camera_lookAt v' = camera_lookAt v"
    if "character v = None" for v t
    using that by (simp add: animate_None)
  show ?thesis using r a g by (simp add: init_def)
qed

theorem C8_witness:
  "no_load [KeyDown ''KeyW'', PointerLockChange True, MouseMove 10 20, Frame 16, Frame 32] \<and>
   character (run [KeyDown ''KeyW'', PointerLockChange True, MouseMove 10 20, Frame 16, Frame 32] (init 0)) = None \<and>
   camera_position (run [KeyDown ''KeyW'', PointerLockChange True, MouseMove 10 20, Frame 16, Frame 32] (init 0))
     = vec3 0 3 10 \<and>
   calls (run [KeyDown ''KeyW'', PointerLockChange True, MouseMove 10 20, Frame 16, Frame 32] (init 0)) = [] \<and>
   animate 48 (run [KeyDown ''KeyW'', PointerLockChange True, MouseMove 10 20, Frame 16, Frame 32] (init 0)) =
     Inr ((run [KeyDown ''KeyW'', PointerLockChange True, MouseMove 10 20, Frame 16, Frame 32] (init 0))
          \<lparr>prevTime := 48\<rparr>)"
proof -
  have h: "no_load [KeyDown ''KeyW'', PointerLockChange True, MouseMove 10 20, Frame 16, Frame 32]"
    by simp
  from C8_no_op_before_load [OF h, of 0] h show ?thesis by blast
qed

section \<open>C9: the orientation depends on the yaw only\<close>

lemma quaternion_movement: "quaternion (movement d w c) = charQuat w"
  by (simp add: movement_def Let_def)

text \<open>
  C9. Two frames run in states with a loaded character and the same yaw, whatever their
  pitch and everything else, return and leave the character with the same orientation: the
  quaternion of Euler(0, yaw, 0).
\<close>

theorem C9_orientation_from_yaw_only:
  assumes "character w1 = Some c1" and "character w2 = Some c2" and "yaw w1 = yaw w2"
  shows "\<exists>w1' w2' c1' c2'. animate t1 w1 = Inr w1' \<and> animate t2 w2 = Inr w2' \<and>
           character w1' = Some c1' \<and> character w2' = Some c2' \<and>
           quaternion c1' = quaternion c2' \<and>
           quaternion c1' = setFromEuler \<lparr>ex = 0, ey = yaw w1, ez = 0\<rparr>"
  using character_frame [OF assms(1), of t1] character_frame [OF assms(2), of t2] assms(3)
  by (simp add: animate_frame quaternion_movement charQuat_def)

theorem C9_witness:
  "character loaded_example = Some character_example \<and>
   character (loaded_example\<lparr>pitch := 1\<rparr>) = Some character_example \<and>
   yaw loaded_example = yaw (loaded_example\<lparr>pitch := 1\<rparr>) \<and>
   (\<exists>w1' w2' c1' c2'. animate 16 loaded_example = Inr w1' \<and>
      animate 16 (loaded_example\<lparr>pitch := 1\<rparr>) = Inr w2' \<and>
      character w1' = Some c1' \<and> character w2' = Some c2' \<and>
      quaternion c1' = quaternion c2' \<and>
      quaternion c1' = setFromEuler \<lparr>ex = 0, ey = yaw loaded_example, ez = 0\<rparr>)"
proof -
  have h: "character loaded_example = Some character_example"
    "character (loaded_example\<lparr>pitch := 1\<rparr>) = Some character_example"
    "yaw loaded_example = yaw (loaded_example\<lparr>pitch := 1\<rparr>)"
    by (simp_all add: loaded_example_fields character_example_def)
  from C9_orientation_from_yaw_only [OF h, of 16 16] h show ?thesis by blast
qed

section \<open>C10: the character stays on the ground\<close>

lemma vy_yaw_rotation:
  "vy (applyQuaternion v (setFromEuler \<lparr>ex = 0, ey = a, ez = 0\<rparr>)) = vy v"
  by (simp add: applyQuaternion_def setFromEuler_def Let_def)

lemma vy_normalize_v: "vy v = 0 \<Longrightarrow> vy (normalize_v v) = 0"
  by (simp add: normalize_v_def divideScalar_def multiplyScalar_def)

lemma vy_movement: "vy (position (movement d w c)) = vy (position c)"
  by (simp add: movement_def Let_def addScaledVector_def charQuat_def vy_yaw_rotation
      vy_normalize_v moveDir_vy)

lemma vy_frame:
  "map_option (\<lambda>c. vy (position c)) (character (frame t w)) =
   map_option (\<lambda>c. vy (position c)) (character w)"
  by (cases "character w") (simp_all add: frame_None character_frame vy_movement)

lemma ground_step:
  assumes "\<forall>c. character w = Some c \<longrightarrow> vy (position c) = 0"
  shows "\<forall>c. character (step e w) = Some c \<longrightarrow> vy (position c) = 0"
proof (cases e)
  case (Frame t)
  show ?thesis
  proof (cases "character w")
    case None
    then show ?thesis using Frame by (simp add: frame_None)
  next
    case (Some c)
    then show ?thesis using Frame assms by (simp add: character_frame vy_movement)
  qed
next
  case (CharacterLoaded g)
  then show ?thesis
    by (simp add: onCharacterLoaded_def Let_def CHARACTER_START_POSITION_def vec3_def split: list.splits)
next
  case (KeyDown code)
  then show ?thesis using assms by (simp add: onKeyDown_def)
next
  case (KeyUp code)
  then show ?thesis using assms by (simp add: onKeyUp_def)
next
  case (PointerLockChange locked)
  then show ?thesis using assms by (simp add: onPointerLockChange_def)
next
  case (MouseMove dx dy)
  then show ?thesis using assms by (simp add: onMouseMove_def Let_def)
qed

lemma ground_run:
  "\<forall>c. character w = Some c \<longrightarrow> vy (position c) = 0 \<Longrightarrow>
   \<forall>c. character (run es w) = Some c \<longrightarrow> vy (position c) = 0"
proof (induction es arbitrary: w)
  case Nil
  then show ?case by simp
next
  case (Cons e es)
  from Cons.IH [OF ground_step [OF Cons.prems]] show ?case by simp
qed

text \<open>
  C10. A frame returns and leaves the height (y) of the character unchanged, in any
  state, for any keys, yaw and elapsed time; after any events from the initial state a
  loaded character is at height 0, its starting height.
\<close>

theorem C10_height_unchanged:
  "(\<exists>w'. animate t w = Inr w' \<and>
      map_option (\<lambda>c. vy (position c)) (character w') =
      map_option (\<lambda>c. vy (position c)) (character w)) \<and>
   (\<forall>c. character (run es (init t0)) = Some c \<longrightarrow> vy (position c) = 0)"
proof -
  have "\<forall>c. character (init t0) = Some c \<longrightarrow> vy (position c) = 0" by (simp add: init_def)
  from ground_run [OF this] show ?thesis by (simp add: animate_frame vy_frame)
qed

theorem C10_witness:
  "(\<exists>w'. animate 16 walking_example = Inr w' \<and>
      map_option (\<lambda>c. vy (position c)) (character w') =
      map_option (\<lambda>c. vy (position c)) (character walking_example)) \<and>
   (\<exists>c. character (run [CharacterLoaded gltf_example, KeyDown ''KeyW'', Frame 16] (init 0)) = Some c \<and>
      vy (position c) = 0)"
proof -
  have r: "run [CharacterLoaded gltf_example, KeyDown ''KeyW'', Frame 16] (init 0) = frame 16 walking_example"
    by (simp add: walking_example_def loaded_example_def)
  have "\<exists>c. character (frame 16 walking_example) = Some c"
    by (simp add: character_frame [OF walking_example_fields(1)])
  then show ?thesis
    using C10_height_unchanged [of 16 walking_example "[CharacterLoaded gltf_example, KeyDown ''KeyW'', Frame 16]" 0]
    unfolding r by blast
qed

end
